theory Spec2Isabelle
  imports Main
begin

section \<open>Graceful shutdown of a set of HTTP servers (package service, shutdown.go)\<close>

text \<open>
  The development embeds \<^verbatim>\<open>advance/ctx/graceful_shutdown/service/shutdown.go\<close>.
  A point in time and a \<^verbatim>\<open>time.Duration\<close> are both integers counting nanoseconds.
  Everything the program does not own (the router \<^verbatim>\<open>http.ServeMux\<close>, the listener
  \<^verbatim>\<open>http.Server\<close>, the scheduler, the user's callbacks, the signals) is a parameter of
  the functions below; nothing is assumed about it.
\<close>

subsection \<open>Time\<close>

type_synonym Time = int
type_synonym Duration = int

definition Second :: Duration where
  "Second = 1000000000"

text \<open>The untyped constants of lines 14 to 18.\<close>

definition shutdownTimeout :: int where
  "shutdownTimeout = 30"

definition waitTime :: int where
  "waitTime = 10"

definition cbTimeout :: int where
  "cbTimeout = 3"

subsection \<open>The request gate: serverMux\<close>

type_synonym handler = nat
type_synonym routes = "(string \<times> handler) list"

text \<open>
  \<^verbatim>\<open>type serverMux struct { reject bool; *http.ServeMux }\<close>. The embedded router is
  represented by its routing table.
\<close>

record serverMux =
  reject :: bool
  ServeMux :: routes

text \<open>
  What one call of \<^verbatim>\<open>ServeHTTP\<close> does with the response writer: it either writes a
  status and a body itself, or hands the writer and the request to the embedded router.
\<close>

datatype 'r dispatch = Respond nat string | Forward 'r

definition StatusServiceUnavailable :: nat where
  "StatusServiceUnavailable = 503"

text \<open>The body of line 156, as the bytes of its UTF-8 encoding.\<close>

definition closed_body :: string where
  "closed_body =
     [CHR 0xE6, CHR 0x9C, CHR 0x8D, CHR 0xE5, CHR 0x8A, CHR 0xA1, CHR 0xE5, CHR 0xB7,
      CHR 0xB2, CHR 0xE5, CHR 0x85, CHR 0xB3, CHR 0xE9, CHR 0x97, CHR 0xAD]"

definition ServeHTTP :: "serverMux \<Rightarrow> 'r \<Rightarrow> 'r dispatch" where
  "ServeHTTP s r =
     (if reject s then Respond StatusServiceUnavailable closed_body
      else Forward r)"

subsection \<open>The server wrapper\<close>

text \<open>
  \<^verbatim>\<open>type Server struct { srv *http.Server; name string; mux *serverMux; wg *sync.WaitGroup }\<close>.
  The listener is its address (its handler is the field \<open>mux\<close>), the wait group is its
  counter.
\<close>

record Server =
  srv :: string
  name :: string
  mux :: serverMux
  wg :: nat

definition NewServer :: "string \<Rightarrow> string \<Rightarrow> Server" where
  "NewServer nm ad =
     \<lparr>srv = ad, name = nm, mux = \<lparr>reject = False, ServeMux = []\<rparr>, wg = 0\<rparr>"

text \<open>
  \<^verbatim>\<open>sync.WaitGroup\<close>: \<^verbatim>\<open>Add\<close> panics when the counter would become negative,
  \<^verbatim>\<open>Done\<close> is \<^verbatim>\<open>Add(-1)\<close>. A panic is the value \<open>None\<close>.
\<close>

definition wg_Add :: "int \<Rightarrow> nat \<Rightarrow> nat option" where
  "wg_Add delta n = (if int n + delta < 0 then None else Some (nat (int n + delta)))"

definition wg_Done :: "nat \<Rightarrow> nat option" where
  "wg_Done n = wg_Add (- 1) n"

text \<open>
  \<^verbatim>\<open>http.ServeMux.Handle\<close> belongs to the standard library: it registers the handler or
  panics (empty or conflicting pattern, nil handler). It is the parameter \<open>reg\<close>, with
  \<open>None\<close> for the panic.
\<close>

type_synonym register = "routes \<Rightarrow> string \<Rightarrow> handler \<Rightarrow> routes option"

datatype outcome = Returned | Panicked

text \<open>
  \<^verbatim>\<open>Handle\<close> (lines 175 to 179). The deferred \<^verbatim>\<open>s.wg.Done()\<close> runs on both ways out of
  the function, so the server that the caller holds is updated in either case.
\<close>

definition Handle :: "register \<Rightarrow> Server \<Rightarrow> string \<Rightarrow> handler \<Rightarrow> Server \<times> outcome" where
  "Handle reg s pattern h =
     (case wg_Add 1 (wg s) of
        None \<Rightarrow> (s, Panicked)
      | Some c \<Rightarrow>
          let s1 = s\<lparr>wg := c\<rparr>;
              (s2, res) =
                (case reg (ServeMux (mux s1)) pattern h of
                   None \<Rightarrow> (s1, Panicked)
                 | Some rs \<Rightarrow> (s1\<lparr>mux := (mux s1)\<lparr>ServeMux := rs\<rparr>\<rparr>, Returned))
          in (case wg_Done (wg s2) of
                None \<Rightarrow> (s2, Panicked)
              | Some c' \<Rightarrow> (s2\<lparr>wg := c'\<rparr>, res)))"

definition rejectReq :: "Server \<Rightarrow> Server" where
  "rejectReq s = s\<lparr>mux := (mux s)\<lparr>reject := True\<rparr>\<rparr>"

subsection \<open>Waiting for the wait group\<close>

text \<open>The lines this program writes to the log, one constructor for each call of the logger.\<close>

datatype log_line =
    ServerClosed string
  | ServerCrashed string
  | ServerStarted string
  | ForcedByUser
  | ForcedByTimeout
  | BeginShutdown
  | BeginWait
  | BeginStop
  | BeginCallbacks
  | BeginRelease
  | AppClosed
  | RequestsDone string
  | RequestsTimeout string
  | ServerStopping string

text \<open>
  \<^verbatim>\<open>waitInflight\<close> (lines 190 to 202) starts a goroutine that waits for the wait group and
  then sends on \<open>ch\<close>, and selects between \<open>ch\<close> and a timer of
  \<^verbatim>\<open>time.Second * waitTime\<close>. With a counter of zero \<^verbatim>\<open>wg.Wait()\<close> returns at once;
  otherwise the moment at which other goroutines bring it to zero is the parameter
  \<open>zero_after\<close> (\<open>None\<close>: never). When \<open>ch\<close> and the timer are ready at the same moment Go
  picks one of them at random: the parameter \<open>pick_ch\<close>. The result is the line logged
  and the time the call took.
\<close>

definition wg_Wait :: "nat \<Rightarrow> Duration option \<Rightarrow> Duration option" where
  "wg_Wait n zero_after = (if n = 0 then Some 0 else zero_after)"

definition waitInflight :: "Server \<Rightarrow> Duration option \<Rightarrow> bool \<Rightarrow> log_line \<times> Duration" where
  "waitInflight s zero_after pick_ch =
     (let ready = wg_Wait (wg s) zero_after;
          timer = Second * waitTime
      in case ready of
           None \<Rightarrow> (RequestsTimeout (name s), timer)
         | Some d \<Rightarrow>
             if d < timer \<or> (d = timer \<and> pick_ch) then (RequestsDone (name s), d)
             else (RequestsTimeout (name s), timer))"

text \<open>\<^verbatim>\<open>stop\<close> (lines 204 to 207) logs and returns what \<^verbatim>\<open>srv.Shutdown\<close> returns.\<close>

type_synonym shutdown_result = "(Duration \<times> string option) option"

definition stop :: "Server \<Rightarrow> shutdown_result \<Rightarrow> log_line \<times> shutdown_result" where
  "stop s res = (ServerStopping (name s), res)"

subsection \<open>The application\<close>

text \<open>
  A context made by \<^verbatim>\<open>context.WithTimeout(context.Background(), d)\<close> is its deadline.
\<close>

record Context =
  deadline :: Time

definition WithTimeout :: "Time \<Rightarrow> Duration \<Rightarrow> Context" where
  "WithTimeout now d = \<lparr>deadline = now + d\<rparr>"

text \<open>
  \<^verbatim>\<open>type ShutdownCallback func(ctx context.Context)\<close>. All that the coordinator sees of
  a callback is when it returns: a callback maps its context and the moment it is started to
  the time it runs, \<open>None\<close> when it never returns.
\<close>

type_synonym ShutdownCallback = "Context \<Rightarrow> Time \<Rightarrow> Duration option"

record App =
  servers :: "Server list"
  app_shutdownTimeout :: Duration
  app_waitTime :: Duration
  app_cbTimeout :: Duration
  cbs :: "ShutdownCallback list"

type_synonym Option = "App \<Rightarrow> App"

definition WithShutdownCallbacks :: "ShutdownCallback list \<Rightarrow> Option" where
  "WithShutdownCallbacks cs = (\<lambda>app. app\<lparr>cbs := cbs app @ cs\<rparr>)"

text \<open>
  \<^verbatim>\<open>NewApp\<close> (lines 51 to 62). The three fields are of type \<^verbatim>\<open>time.Duration\<close> and are
  initialised with the untyped constants, that is with 30, 10 and 3 nanoseconds.
\<close>

definition NewApp :: "Server list \<Rightarrow> Option list \<Rightarrow> App" where
  "NewApp ss opts =
     fold (\<lambda>opt ap. opt ap) opts
       \<lparr>servers = ss, app_shutdownTimeout = shutdownTimeout, app_waitTime = waitTime,
        app_cbTimeout = cbTimeout, cbs = []\<rparr>"

subsection \<open>Runs\<close>

text \<open>
  What the goroutine that executes \<^verbatim>\<open>shutdown\<close> does is recorded as a list of events
  in program order, each with the moment at which it happens. Servers and callbacks are
  named by their position in \<open>servers\<close> and \<open>cbs\<close>. Statements that do not block take no
  time.
\<close>

datatype event =
    Log log_line
  | RejectReq nat
  | WaitCall nat
  | WaitReturn nat
  | StopCall nat
  | StopReturn nat "string option"
  | CbStart nat Context
  | CbReturn nat
  | GoStart nat
  | GoWatcher
  | Return
  | Exit nat

type_synonym trace = "(Time \<times> event) list"

text \<open>
  A piece of the program started at a moment yields its events and the moment at which it
  is over, \<open>None\<close> when it blocks forever.
\<close>

type_synonym phase = "Time \<Rightarrow> trace \<times> Time option"

text \<open>
  What the scheduler, the wait groups and the listeners contribute to one run:
  for the server at a position, when its wait group reaches zero (counted from the call of
  \<^verbatim>\<open>wg.Wait()\<close>), the choice of \<^verbatim>\<open>select\<close> on a tie, and what
  \<^verbatim>\<open>srv.Shutdown(context.Background())\<close> does: block forever, or take some time and
  return an error or nil.
\<close>

record env =
  wg_zero :: "nat \<Rightarrow> Duration option"
  tie :: "nat \<Rightarrow> bool"
  srv_Shutdown :: "nat \<Rightarrow> shutdown_result"

definition say :: "log_line \<Rightarrow> phase" where
  "say l t = ([(t, Log l)], Some t)"

text \<open>Lines 111 to 113.\<close>

definition reject_phase :: "Server list \<Rightarrow> phase" where
  "reject_phase ss t = (map (\<lambda>i. (t, RejectReq i)) [0..<length ss], Some t)"

text \<open>Lines 116 to 118: the calls of \<^verbatim>\<open>waitInflight\<close>, one after the other.\<close>

fun drain_phase :: "env \<Rightarrow> nat \<Rightarrow> Server list \<Rightarrow> Time \<Rightarrow> trace \<times> Time" where
  "drain_phase e i [] t = ([], t)"
| "drain_phase e i (s # ss) t =
     (let (l, d) = waitInflight s (wg_zero e i) (tie e i);
          (rest, t') = drain_phase e (Suc i) ss (t + d)
      in ((t, WaitCall i) # (t + d, Log l) # (t + d, WaitReturn i) # rest, t'))"

text \<open>Lines 121 to 123: the calls of \<^verbatim>\<open>stop\<close>, whose result goes to the blank identifier.\<close>

fun stop_phase :: "env \<Rightarrow> nat \<Rightarrow> Server list \<Rightarrow> phase" where
  "stop_phase e i [] t = ([], Some t)"
| "stop_phase e i (s # ss) t =
     (case stop s (srv_Shutdown e i) of
        (l, None) \<Rightarrow> ([(t, StopCall i), (t, Log l)], None)
      | (l, Some (d, err)) \<Rightarrow>
          let (rest, r) = stop_phase e (Suc i) ss (t + d)
          in ((t, StopCall i) # (t, Log l) # (t + d, StopReturn i err) # rest, r))"

text \<open>
  \<^verbatim>\<open>execCallBack\<close> (lines 209 to 220): one goroutine for each callback, all of them
  started with the same context, then \<^verbatim>\<open>wg.Wait()\<close> until each has returned. The
  events of one callback follow each other in the list; their moments tell how the
  goroutines interleave.
\<close>

definition cb_events :: "Context \<Rightarrow> Time \<Rightarrow> nat \<times> Duration option \<Rightarrow> trace" where
  "cb_events ctx t ir =
     (t, CbStart (fst ir) ctx) #
     (case snd ir of None \<Rightarrow> [] | Some d \<Rightarrow> [(t + d, CbReturn (fst ir))])"

definition join :: "Time \<Rightarrow> Duration option list \<Rightarrow> Time option" where
  "join t rs =
     fold (\<lambda>r acc. case acc of None \<Rightarrow> None
                    | Some m \<Rightarrow> (case r of None \<Rightarrow> None | Some d \<Rightarrow> Some (max m (t + d))))
       rs (Some t)"

definition execCallBack :: "App \<Rightarrow> Context \<Rightarrow> phase" where
  "execCallBack app ctx t =
     (let rs = map (\<lambda>cb. cb ctx t) (cbs app)
      in (concat (map (cb_events ctx t) (enumerate 0 rs)), join t rs))"

text \<open>\<^verbatim>\<open>close\<close> (lines 134 to 138) sleeps for a second and logs.\<close>

definition close :: phase where
  "close t = ([(t + Second, Log AppClosed)], Some (t + Second))"

text \<open>Pieces of the program in sequence: the next one starts when the one before is over.\<close>

fun in_sequence :: "phase list \<Rightarrow> phase" where
  "in_sequence [] t = ([], Some t)"
| "in_sequence (p # ps) t =
     (case p t of
        (evs, None) \<Rightarrow> (evs, None)
      | (evs, Some t') \<Rightarrow> (let (rest, r) = in_sequence ps t' in (evs @ rest, r)))"

definition always :: "(Time \<Rightarrow> trace \<times> Time) \<Rightarrow> phase" where
  "always p t = (let (evs, t') = p t in (evs, Some t'))"

text \<open>
  \<^verbatim>\<open>shutdown\<close> (lines 105 to 132), started at the moment \<open>t0\<close>. The context is made in
  its first statement. The servers are reached through pointers, so the phases after the
  first see the servers with the flag set.
\<close>

definition shutdown :: "env \<Rightarrow> App \<Rightarrow> phase" where
  "shutdown e app t0 =
     (let ctx = WithTimeout t0 (Second * cbTimeout);
          ss = map rejectReq (servers app)
      in in_sequence
           [say BeginShutdown,
            reject_phase (servers app),
            say BeginWait,
            always (drain_phase e 0 ss),
            say BeginStop,
            stop_phase e 0 ss,
            say BeginCallbacks,
            execCallBack app ctx,
            say BeginRelease,
            close] t0)"

subsection \<open>The supervisor\<close>

text \<open>
  The goroutine of lines 89 to 100, started at the moment \<open>t\<close>. The channel \<open>c\<close> has room
  for one signal, so a signal that arrived at \<open>t2\<close> (after the one that line 87 has
  taken) is there to be received from \<open>max t t2\<close> on; \<open>None\<close>: no further signal. The
  timer is \<^verbatim>\<open>time.Second * shutdownTimeout\<close>. A tie is decided by \<open>pick_sig\<close>.
\<close>

definition watcher :: "Time option \<Rightarrow> bool \<Rightarrow> Time \<Rightarrow> trace" where
  "watcher sig2 pick_sig t =
     (let timer = t + Second * shutdownTimeout
      in case sig2 of
           None \<Rightarrow> [(timer, Log ForcedByTimeout), (timer, Exit 1)]
         | Some t2 \<Rightarrow>
             let ready = max t t2
             in if ready < timer \<or> (ready = timer \<and> pick_sig)
                then [(ready, Log ForcedByUser), (ready, Exit 1)]
                else [(timer, Log ForcedByTimeout), (timer, Exit 1)])"

text \<open>
  \<^verbatim>\<open>StartAndServe\<close> (lines 65 to 102), called at \<open>t0\<close>. \<open>sig1\<close> is the moment of the
  first signal (\<open>None\<close>: there is none, and line 86 blocks forever), \<open>sig2\<close> that of the
  second. The goroutines of lines 68 to 79 write their own lines when
  \<^verbatim>\<open>ListenAndServe\<close> returns; they are not part of this trace. The events of the watcher
  are what it does provided that the process is still running then: \<^verbatim>\<open>StartAndServe\<close>
  returns as soon as it has started the watcher.
\<close>

definition StartAndServe :: "env \<Rightarrow> App \<Rightarrow> Time option \<Rightarrow> Time option \<Rightarrow> bool \<Rightarrow> phase" where
  "StartAndServe e app sig1 sig2 pick_sig t0 =
     (let starts = map (\<lambda>i. (t0, GoStart i)) [0..<length (servers app)]
      in case sig1 of
           None \<Rightarrow> (starts, None)
         | Some t1 \<Rightarrow>
             (case shutdown e app t1 of
                (evs, None) \<Rightarrow> (starts @ evs, None)
              | (evs, Some t2) \<Rightarrow>
                  (starts @ evs @ [(t2, GoWatcher), (t2, Return)] @ watcher sig2 pick_sig t2,
                   Some t2)))"

subsection \<open>Requests in execution\<close>

text \<open>
  To speak about requests that are being served, a server is paired with the requests whose
  handler has been entered and has not returned yet. This list is not a variable of the
  program: it records what the goroutines of \<^verbatim>\<open>net/http\<close> are doing. An arriving
  request goes through \<^verbatim>\<open>ServeHTTP\<close> of the server's \<open>mux\<close>, which is the handler of
  its listener (line 169).
\<close>

record 'r world =
  server :: Server
  executing :: "'r list"

datatype 'r action = Register string handler | RejectNew | Arrive 'r | Complete 'r

fun act :: "register \<Rightarrow> 'r world \<Rightarrow> 'r action \<Rightarrow> 'r world" where
  "act reg w (Register p h) = w\<lparr>server := fst (Handle reg (server w) p h)\<rparr>"
| "act reg w RejectNew = w\<lparr>server := rejectReq (server w)\<rparr>"
| "act reg w (Arrive r) =
     (case ServeHTTP (mux (server w)) r of
        Respond st body \<Rightarrow> w
      | Forward r' \<Rightarrow> w\<lparr>executing := r' # executing w\<rparr>)"
| "act reg w (Complete r) = w\<lparr>executing := remove1 r (executing w)\<rparr>"

definition acts :: "register \<Rightarrow> 'r world \<Rightarrow> 'r action list \<Rightarrow> 'r world" where
  "acts reg w as = foldl (act reg) w as"

definition start_world :: "string \<Rightarrow> string \<Rightarrow> 'r world" where
  "start_world nm ad = \<lparr>server = NewServer nm ad, executing = []\<rparr>"

subsection \<open>Reading a trace\<close>

definition events :: "trace \<Rightarrow> event list" where
  "events tr = map snd tr"






text \<open>The moments at which an event happens in a run.\<close>

definition moments :: "event \<Rightarrow> trace \<Rightarrow> Time list" where
  "moments x tr = map fst (filter (\<lambda>p. snd p = x) tr)"

text \<open>
  The time that each call of \<^verbatim>\<open>waitInflight\<close> takes, for the servers of a list
  whose first one is at position \<open>i\<close>.
\<close>

definition waits :: "env \<Rightarrow> nat \<Rightarrow> Server list \<Rightarrow> Duration list" where
  "waits e i ss = map (\<lambda>(k, s). snd (waitInflight s (wg_zero e k) (tie e k))) (enumerate i ss)"

text \<open>
  The same environment, except that \<^verbatim>\<open>srv.Shutdown\<close> of the server at position \<open>i\<close>
  returns \<open>errs i\<close> when it returns.
\<close>

definition with_errors :: "env \<Rightarrow> (nat \<Rightarrow> string option) \<Rightarrow> env" where
  "with_errors e errs =
     e\<lparr>srv_Shutdown := (\<lambda>i. map_option (\<lambda>r. (fst r, errs i)) (srv_Shutdown e i))\<rparr>"


subsection \<open>Sample inputs\<close>

text \<open>
  A router in the manner of \<^verbatim>\<open>http.ServeMux\<close>: it refuses the empty pattern, the nil
  handler (number 0) and a pattern that is registered already.
\<close>

definition sample_register :: register where
  "sample_register rs p h =
     (if p = [] \<or> h = 0 \<or> p \<in> set (map fst rs) then None else Some (rs @ [(p, h)]))"

text \<open>An environment in which every wait group stays above zero and every listener stops at once.\<close>

definition busy_env :: env where
  "busy_env = \<lparr>wg_zero = (\<lambda>i. None), tie = (\<lambda>i. False), srv_Shutdown = (\<lambda>i. Some (0, None))\<rparr>"

text \<open>A callback that sleeps for some seconds without looking at its context.\<close>

definition sleepy :: "int \<Rightarrow> ShutdownCallback" where
  "sleepy n = (\<lambda>ctx t. Some (n * Second))"

definition two_servers :: "Server list" where
  "two_servers = [NewServer ''a'' '':8080'', NewServer ''b'' '':8081'']"

text \<open>A server whose wait group has a count of one, as during a call of \<^verbatim>\<open>Handle\<close>.\<close>

definition busy_server :: "string \<Rightarrow> string \<Rightarrow> Server" where
  "busy_server nm ad = (NewServer nm ad)\<lparr>wg := 1\<rparr>"

definition busy_two :: "Server list" where
  "busy_two = [busy_server ''a'' '':8080'', busy_server ''b'' '':8081'']"

definition sample_app :: App where
  "sample_app = NewApp two_servers [WithShutdownCallbacks [sleepy 5]]"

text \<open>Every listener fails to stop cleanly.\<close>

definition failing_env :: env where
  "failing_env = with_errors busy_env (\<lambda>i. Some ''close: listener failed'')"

text \<open>Every listener takes five seconds to stop.\<close>

definition slow_env :: env where
  "slow_env = busy_env\<lparr>srv_Shutdown := (\<lambda>i. Some (5 * Second, None))\<rparr>"

text \<open>A callback that never returns.\<close>

definition hanging :: ShutdownCallback where
  "hanging = (\<lambda>ctx t. None)"

text \<open>An option that sets the three timeout fields of the application.\<close>

definition set_timeouts :: "Duration \<Rightarrow> Option" where
  "set_timeouts d = (\<lambda>app. app\<lparr>app_shutdownTimeout := d, app_waitTime := d, app_cbTimeout := d\<rparr>)"

text \<open>
  An application with one busy server and one callback, built with an option that sets the
  three timeout fields to one second.
\<close>

definition tuned_app :: App where
  "tuned_app =
     NewApp [busy_server ''a'' '':8080'']
       [set_timeouts Second, WithShutdownCallbacks [sleepy 1]]"

section \<open>Properties\<close>

subsection \<open>The wait group and the gate of one server\<close>

lemma Handle_wg: "wg (fst (Handle reg s p h)) = wg s"
  by (simp add: Handle_def wg_Add_def wg_Done_def Let_def split: option.splits prod.splits)

lemma Handle_name: "name (fst (Handle reg s p h)) = name s"
  by (simp add: Handle_def wg_Add_def wg_Done_def Let_def split: option.splits prod.splits)

lemma Handle_reject: "reject (mux (fst (Handle reg s p h))) = reject (mux s)"
  by (simp add: Handle_def wg_Add_def wg_Done_def Let_def split: option.splits prod.splits)

lemma act_wg: "wg (server (act reg w a)) = wg (server w)"
  by (cases a) (simp_all add: Handle_wg rejectReq_def ServeHTTP_def)

lemma act_name: "name (server (act reg w a)) = name (server w)"
  by (cases a) (simp_all add: Handle_name rejectReq_def ServeHTTP_def)

lemma act_reject: "reject (mux (server w)) \<Longrightarrow> reject (mux (server (act reg w a)))"
  by (cases a) (simp_all add: Handle_reject rejectReq_def ServeHTTP_def)

lemma acts_wg: "wg (server (acts reg w as)) = wg (server w)"
  unfolding acts_def by (induction as arbitrary: w) (simp_all add: act_wg)

lemma acts_name: "name (server (acts reg w as)) = name (server w)"
  unfolding acts_def by (induction as arbitrary: w) (simp_all add: act_name)

lemma acts_reject: "reject (mux (server w)) \<Longrightarrow> reject (mux (server (acts reg w as)))"
  unfolding acts_def by (induction as arbitrary: w) (simp_all add: act_reject)

text \<open>
  C1, at the input on which the code departs from it. A server made by \<^verbatim>\<open>NewServer\<close>
  receives one request and forwards it to the router, so the request's handler is now
  executing. The claim wants the in-flight counter incremented at this point. The counter
  of the wait group is still zero, and \<^verbatim>\<open>waitInflight\<close> reports at once that all
  requests are done: \<^verbatim>\<open>ServeHTTP\<close> never touches the wait group.
\<close>

theorem dispatch_leaves_wait_group_untouched:
  "executing (acts sample_register (start_world ''a'' '':8080'') [Arrive ''GET /x''])
     = [''GET /x''] \<and>
   wg (server (acts sample_register (start_world ''a'' '':8080'') [Arrive ''GET /x''])) = 0 \<and>
   waitInflight (server (acts sample_register (start_world ''a'' '':8080'') [Arrive ''GET /x'']))
      None False = (RequestsDone ''a'', 0)"
  by (simp add: acts_def start_world_def NewServer_def ServeHTTP_def waitInflight_def wg_Wait_def
      Second_def waitTime_def)

text \<open>
  C9: while the reject flag is false the gate forwards the request as it is; once
  \<^verbatim>\<open>rejectReq\<close> has been called on a server, whatever happens to the server afterwards
  (registrations, further calls of \<^verbatim>\<open>rejectReq\<close>, requests arriving and completing),
  a request gets the fixed response with status 503 and is not forwarded.
\<close>

theorem gate_forwards_until_rejecting:
  "(\<not> reject (mux (server w)) \<longrightarrow> ServeHTTP (mux (server w)) r = Forward r) \<and>
   ServeHTTP (mux (server (acts reg (act reg w RejectNew) as))) r
     = Respond StatusServiceUnavailable closed_body"
proof -
  have "reject (mux (server (act reg w RejectNew)))"
    by (simp add: rejectReq_def)
  then have "reject (mux (server (acts reg (act reg w RejectNew) as)))"
    by (rule acts_reject)
  then show ?thesis
    by (simp add: ServeHTTP_def)
qed

theorem gate_forwards_until_rejecting_witness:
  "\<not> reject (mux (server (start_world ''a'' '':8080'' :: string world))) \<and>
   ServeHTTP (mux (server (start_world ''a'' '':8080'' :: string world))) ''GET /x''
     = Forward ''GET /x'' \<and>
   ServeHTTP (mux (server (acts sample_register
       (act sample_register (start_world ''a'' '':8080'') RejectNew)
       [Arrive ''GET /x'', Register ''/y'' 1]))) ''GET /x''
     = Respond 503 closed_body"
  using gate_forwards_until_rejecting [of "start_world ''a'' '':8080''" "''GET /x''"
      sample_register "[Arrive ''GET /x'', Register ''/y'' 1]"]
  by (simp add: start_world_def NewServer_def StatusServiceUnavailable_def)

text \<open>
  C10: \<^verbatim>\<open>Handle\<close> leaves the counter of the wait group as it found it, also when the
  router panics. So on a server made by \<^verbatim>\<open>NewServer\<close> the counter is zero after any
  sequence of registrations, rejections and requests arriving or completing, and
  \<^verbatim>\<open>waitInflight\<close> returns at once with the line that all requests are done, whatever
  requests are executing.
\<close>

theorem handle_keeps_wait_group_at_zero:
  "wg (fst (Handle reg s p h)) = wg s \<and>
   wg (server (acts reg (start_world nm ad) as)) = 0 \<and>
   waitInflight (server (acts reg (start_world nm ad) as)) z pick = (RequestsDone nm, 0)"
  by (simp add: Handle_wg acts_wg acts_name start_world_def NewServer_def waitInflight_def
      wg_Wait_def Second_def waitTime_def)

subsection \<open>The phases of shutdown\<close>

lemma waits_Nil [simp]: "waits e i [] = []"
  by (simp add: waits_def)

lemma waits_Cons [simp]:
  "waits e i (s # ss) = snd (waitInflight s (wg_zero e i) (tie e i)) # waits e (Suc i) ss"
  by (simp add: waits_def)

lemma length_waits [simp]: "length (waits e i ss) = length ss"
  by (simp add: waits_def)

lemma waitInflight_rejectReq [simp]: "waitInflight (rejectReq s) z p = waitInflight s z p"
  by (simp add: waitInflight_def rejectReq_def Let_def split: option.splits)

lemma waits_rejectReq [simp]: "waits e i (map rejectReq ss) = waits e i ss"
  by (induction ss arbitrary: i) simp_all


lemma drain_phase_events:
  "x \<in> set (fst (drain_phase e i ss t)) \<Longrightarrow>
     (\<exists>k. snd x = WaitCall k) \<or> (\<exists>k. snd x = WaitReturn k) \<or>
     (\<exists>n. snd x = Log (RequestsDone n)) \<or> (\<exists>n. snd x = Log (RequestsTimeout n))"
proof (induction ss arbitrary: i t)
  case Nil
  then show ?case by simp
next
  case (Cons s ss)
  then show ?case
    by (auto simp: split_beta Let_def waitInflight_def split: option.splits if_splits)
qed


lemma stop_phase_events:
  "x \<in> set (fst (stop_phase e i ss t)) \<Longrightarrow>
     (\<exists>k. snd x = StopCall k) \<or> (\<exists>k err. snd x = StopReturn k err) \<or>
     (\<exists>n. snd x = Log (ServerStopping n))"
proof (induction ss arbitrary: i t)
  case Nil
  then show ?case by simp
next
  case (Cons s ss)
  then show ?case
    by (auto simp: split_beta Let_def stop_def split: option.splits if_splits)
qed


lemma shutdown_shape:
  "fst (shutdown e app t0) =
     (t0, Log BeginShutdown) # map (\<lambda>i. (t0, RejectReq i)) [0..<length (servers app)] @
     (t0, Log BeginWait) # fst (drain_phase e 0 (map rejectReq (servers app)) t0) @
     (snd (drain_phase e 0 (map rejectReq (servers app)) t0), Log BeginStop) #
     fst (stop_phase e 0 (map rejectReq (servers app))
            (snd (drain_phase e 0 (map rejectReq (servers app)) t0))) @
     (case snd (stop_phase e 0 (map rejectReq (servers app))
            (snd (drain_phase e 0 (map rejectReq (servers app)) t0))) of
        None \<Rightarrow> []
      | Some t2 \<Rightarrow>
          (t2, Log BeginCallbacks) #
          fst (execCallBack app (WithTimeout t0 (Second * cbTimeout)) t2) @
          (case snd (execCallBack app (WithTimeout t0 (Second * cbTimeout)) t2) of
             None \<Rightarrow> []
           | Some t3 \<Rightarrow> [(t3, Log BeginRelease), (t3 + Second, Log AppClosed)]))"
  by (simp add: shutdown_def say_def reject_phase_def always_def close_def Let_def split_beta
      split: option.splits prod.splits)










lemma events_append [simp]: "events (xs @ ys) = events xs @ events ys"
  by (simp add: events_def)

lemma events_Cons [simp]: "events (x # xs) = snd x # events xs"
  by (simp add: events_def)

lemma events_Nil [simp]: "events [] = []"
  by (simp add: events_def)







lemma execCallBack_events:
  "x \<in> set (fst (execCallBack app ctx t)) \<Longrightarrow>
     (\<exists>j. snd x = CbStart j ctx) \<or> (\<exists>j. snd x = CbReturn j)"
  by (auto simp: execCallBack_def cb_events_def Let_def split: option.splits)










lemma moments_Nil [simp]: "moments x [] = []"
  by (simp add: moments_def)

lemma moments_Cons [simp]:
  "moments x (p # tr) = (if snd p = x then fst p # moments x tr else moments x tr)"
  by (simp add: moments_def)

lemma moments_append [simp]: "moments x (xs @ ys) = moments x xs @ moments x ys"
  by (simp add: moments_def)




subsection \<open>The drain phase\<close>




subsection \<open>Sample runs\<close>

lemmas run_defs = shutdown_def say_def reject_phase_def always_def close_def execCallBack_def
  cb_events_def join_def stop_def waitInflight_def wg_Wait_def WithTimeout_def NewApp_def
  WithShutdownCallbacks_def NewServer_def rejectReq_def Second_def waitTime_def cbTimeout_def
  shutdownTimeout_def busy_env_def sleepy_def two_servers_def sample_app_def busy_server_def
  busy_two_def failing_env_def slow_env_def hanging_def set_timeouts_def with_errors_def
  StartAndServe_def watcher_def tuned_app_def



subsection \<open>The order of the phases\<close>







subsection \<open>The stop phase\<close>

lemma with_errors_fields [simp]:
  "wg_zero (with_errors e errs) = wg_zero e" "tie (with_errors e errs) = tie e"
  "srv_Shutdown (with_errors e errs) i = map_option (\<lambda>r. (fst r, errs i)) (srv_Shutdown e i)"
  by (simp_all add: with_errors_def)

lemma drain_phase_with_errors [simp]:
  "drain_phase (with_errors e errs) i ss t = drain_phase e i ss t"
  by (induction ss arbitrary: i t) simp_all










subsection \<open>Timeouts\<close>

text \<open>
  A run does not depend on the three timeout fields of the application, and every callback
  is started with a context whose deadline is three seconds after the entry into
  \<^verbatim>\<open>shutdown\<close>.
\<close>

lemma shutdown_ignores_timeout_fields:
  "shutdown e (app\<lparr>app_shutdownTimeout := a, app_waitTime := b, app_cbTimeout := c\<rparr>) t
     = shutdown e app t"
  by (simp add: shutdown_def execCallBack_def reject_phase_def)

lemma StartAndServe_ignores_timeout_fields:
  "StartAndServe e (app\<lparr>app_shutdownTimeout := a, app_waitTime := b, app_cbTimeout := c\<rparr>)
       sig1 sig2 pick t
     = StartAndServe e app sig1 sig2 pick t"
  by (cases sig1) (simp_all add: StartAndServe_def shutdown_ignores_timeout_fields)

lemma shutdown_events:
  assumes "x \<in> set (fst (shutdown e app t0))"
  shows "(\<forall>c. snd x \<noteq> Exit c) \<and>
     (\<forall>j ctx. snd x = CbStart j ctx \<longrightarrow> ctx = WithTimeout t0 (Second * cbTimeout))"
  using assms unfolding shutdown_shape
  by (auto dest!: drain_phase_events stop_phase_events execCallBack_events
      split: option.splits)

lemma callback_deadline:
  "(t, CbStart j ctx) \<in> set (fst (shutdown e app t0)) \<Longrightarrow> deadline ctx = t0 + 3000000000"
  using shutdown_events [of "(t, CbStart j ctx)" e app t0]
  by (simp add: WithTimeout_def Second_def cbTimeout_def)

text \<open>
  C5, at an input on which the code departs from it. One server whose listener takes five
  seconds to stop, one callback. The callback is started five seconds after the entry into
  \<^verbatim>\<open>shutdown\<close> with a context whose deadline is three seconds after that entry: the
  context is made in the first statement of \<^verbatim>\<open>shutdown\<close> (line 107), so the stop
  phase has used up the budget of the callbacks before they begin.
\<close>

theorem callback_deadline_counts_from_entry:
  "shutdown slow_env (NewApp [NewServer ''a'' '':8080''] [WithShutdownCallbacks [sleepy 1]]) 0 =
    ([(0, Log BeginShutdown), (0, RejectReq 0), (0, Log BeginWait),
      (0, WaitCall 0), (0, Log (RequestsDone ''a'')), (0, WaitReturn 0),
      (0, Log BeginStop), (0, StopCall 0), (0, Log (ServerStopping ''a'')),
      (5000000000, StopReturn 0 None), (5000000000, Log BeginCallbacks),
      (5000000000, CbStart 0 \<lparr>deadline = 3000000000\<rparr>),
      (6000000000, CbReturn 0), (6000000000, Log BeginRelease),
      (7000000000, Log AppClosed)],
     Some 7000000000)"
  by (simp add: run_defs)

text \<open>
  C4, at an input on which the code departs from it. An application built with an option
  that sets the three timeout fields to one second has these values in its fields, and an
  application built without options has 30, 10 and 3 nanoseconds there. The run reads
  none of them: the wait for the busy server ends after ten seconds, the context of the
  callback has its deadline three seconds after the entry into \<^verbatim>\<open>shutdown\<close>, and
  the watcher exits thirty seconds after it was started.
\<close>

theorem timeout_fields_are_not_read:
  "app_shutdownTimeout tuned_app = 1000000000 \<and>
   app_waitTime tuned_app = 1000000000 \<and>
   app_cbTimeout tuned_app = 1000000000 \<and>
   app_shutdownTimeout (NewApp two_servers []) = 30 \<and>
   app_waitTime (NewApp two_servers []) = 10 \<and>
   app_cbTimeout (NewApp two_servers []) = 3 \<and>
   StartAndServe busy_env tuned_app (Some 0) None False 0 =
    ([(0, GoStart 0), (0, Log BeginShutdown), (0, RejectReq 0),
      (0, Log BeginWait), (0, WaitCall 0),
      (10000000000, Log (RequestsTimeout ''a'')), (10000000000, WaitReturn 0),
      (10000000000, Log BeginStop), (10000000000, StopCall 0),
      (10000000000, Log (ServerStopping ''a'')),
      (10000000000, StopReturn 0 None), (10000000000, Log BeginCallbacks),
      (10000000000, CbStart 0 \<lparr>deadline = 3000000000\<rparr>),
      (11000000000, CbReturn 0), (11000000000, Log BeginRelease),
      (12000000000, Log AppClosed), (12000000000, GoWatcher),
      (12000000000, Return), (42000000000, Log ForcedByTimeout),
      (42000000000, Exit 1)],
     Some 12000000000)"
  by (simp add: run_defs)

subsection \<open>The supervisor and the forced exit\<close>

text \<open>
  A forced exit happens only after a first signal, only when \<^verbatim>\<open>shutdown\<close> has
  returned, and not before the moment of its return.
\<close>

lemma forced_exit_after_return:
  assumes "(t, Exit c) \<in> set (fst (StartAndServe e app sig1 sig2 pick t0))"
  shows "\<exists>t1 t2. sig1 = Some t1 \<and> snd (shutdown e app t1) = Some t2 \<and> t2 \<le> t"
proof (cases sig1)
  case None
  with assms show ?thesis
    by (auto simp: StartAndServe_def)
next
  case (Some t1)
  obtain evs r where run: "shutdown e app t1 = (evs, r)"
    by (cases "shutdown e app t1")
  from shutdown_events [of "(t, Exit c)" e app t1] run
  have clean: "(t, Exit c) \<notin> set evs"
    by auto
  show ?thesis
  proof (cases r)
    case None
    with Some assms run clean show ?thesis
      by (auto simp: StartAndServe_def)
  next
    case (Some t2)
    with \<open>sig1 = Some t1\<close> assms run clean
    have "(t, Exit c) \<in> set (watcher sig2 pick t2)"
      by (auto simp: StartAndServe_def)
    then have "t2 \<le> t"
      by (auto simp: watcher_def Let_def Second_def shutdownTimeout_def
          split: option.splits if_splits)
    with \<open>sig1 = Some t1\<close> Some run show ?thesis
      by simp
  qed
qed

text \<open>
  C2, at inputs on which the code departs from it. The first signal arrives at 0, the
  second one second later. With a callback that takes five seconds \<^verbatim>\<open>shutdown\<close>
  returns after six seconds; only then is the watcher started, and the process exits at
  six seconds, not at one. With a callback that never returns, \<^verbatim>\<open>shutdown\<close> never
  returns, the watcher is never started and there is no forced exit at all, neither on the
  second signal nor after thirty seconds.
\<close>

theorem watcher_starts_after_shutdown:
  "StartAndServe busy_env (NewApp [NewServer ''a'' '':8080''] [WithShutdownCallbacks [sleepy 5]])
      (Some 0) (Some 1000000000) False 0 =
    ([(0, GoStart 0), (0, Log BeginShutdown), (0, RejectReq 0),
      (0, Log BeginWait), (0, WaitCall 0), (0, Log (RequestsDone ''a'')),
      (0, WaitReturn 0), (0, Log BeginStop), (0, StopCall 0),
      (0, Log (ServerStopping ''a'')), (0, StopReturn 0 None),
      (0, Log BeginCallbacks), (0, CbStart 0 \<lparr>deadline = 3000000000\<rparr>),
      (5000000000, CbReturn 0), (5000000000, Log BeginRelease),
      (6000000000, Log AppClosed), (6000000000, GoWatcher),
      (6000000000, Return), (6000000000, Log ForcedByUser),
      (6000000000, Exit 1)],
     Some 6000000000) \<and>
   StartAndServe busy_env (NewApp [NewServer ''a'' '':8080''] [WithShutdownCallbacks [hanging]])
      (Some 0) (Some 1000000000) False 0 =
    ([(0, GoStart 0), (0, Log BeginShutdown), (0, RejectReq 0),
      (0, Log BeginWait), (0, WaitCall 0), (0, Log (RequestsDone ''a'')),
      (0, WaitReturn 0), (0, Log BeginStop), (0, StopCall 0),
      (0, Log (ServerStopping ''a'')), (0, StopReturn 0 None),
      (0, Log BeginCallbacks), (0, CbStart 0 \<lparr>deadline = 3000000000\<rparr>)],
     None)"
  by (simp add: run_defs)

end
